theory Spec2Isabelle
  imports Complex_Main
begin

section \<open>Data model\<close>

text \<open>
  The capture script \<^verbatim>\<open>capture_to_csv.py\<close> keeps every packet as a Python dict from
  field names to values. The type of the value stored under a key is decided by the key's
  name alone (see \<^verbatim>\<open>parse_packet\<close>): four names hold floats, five hold ints, one holds
  a bool and every other name holds the raw string. The dict is therefore modelled as four
  typed partial maps over the field name. Python floats are modelled by the reals, Python
  ints by the integers; rounding error, infinities and NaN are outside the model.
\<close>

record packet =
  floats :: "string \<rightharpoonup> real"
  ints :: "string \<rightharpoonup> int"
  bools :: "string \<rightharpoonup> bool"
  strs :: "string \<rightharpoonup> string"

definition empty_packet :: packet where
  "empty_packet = \<lparr>floats = Map.empty, ints = Map.empty, bools = Map.empty, strs = Map.empty\<rparr>"

text \<open>\<^verbatim>\<open>packet.get(key, default)\<close>, one reader per value type.\<close>

definition get_float :: "packet \<Rightarrow> string \<Rightarrow> real \<Rightarrow> real" where
  "get_float p k d = (case floats p k of None \<Rightarrow> d | Some v \<Rightarrow> v)"

definition get_int :: "packet \<Rightarrow> string \<Rightarrow> int \<Rightarrow> int" where
  "get_int p k d = (case ints p k of None \<Rightarrow> d | Some v \<Rightarrow> v)"

definition get_bool :: "packet \<Rightarrow> string \<Rightarrow> bool \<Rightarrow> bool" where
  "get_bool p k d = (case bools p k of None \<Rightarrow> d | Some v \<Rightarrow> v)"

definition get_str :: "packet \<Rightarrow> string \<Rightarrow> string \<Rightarrow> string" where
  "get_str p k d = (case strs p k of None \<Rightarrow> d | Some v \<Rightarrow> v)"

text \<open>The keys of the dict.\<close>

definition has_key :: "packet \<Rightarrow> string \<Rightarrow> bool" where
  "has_key p k \<longleftrightarrow> floats p k \<noteq> None \<or> ints p k \<noteq> None \<or> bools p k \<noteq> None \<or> strs p k \<noteq> None"

definition FLOAT_FIELDS :: "string list" where
  "FLOAT_FIELDS = [''frame.time_epoch'', ''frame.time_delta'', ''tcp.analysis.ack_rtt'', ''dns.time'']"

definition INT_FIELDS :: "string list" where
  "INT_FIELDS = [''frame.len'', ''tcp.srcport'', ''tcp.dstport'', ''ip.ttl'', ''tcp.window_size_value'']"

text \<open>\<^verbatim>\<open>TSHARK_CONFIG["fields"]\<close>: the fourteen fields of a capture line.\<close>

definition TSHARK_FIELDS :: "string list" where
  "TSHARK_FIELDS =
    [''frame.time_epoch'', ''ip.src'', ''ip.dst'', ''_ws.col.protocol'', ''frame.len'',
     ''tcp.srcport'', ''tcp.dstport'', ''ip.ttl'', ''tcp.flags'', ''tcp.window_size_value'',
     ''tcp.analysis.ack_rtt'', ''tcp.analysis.retransmission'', ''frame.time_delta'',
     ''dns.time'']"

definition fully_populated :: "packet \<Rightarrow> bool" where
  "fully_populated p \<longleftrightarrow> list_all (has_key p) TSHARK_FIELDS"

definition PORT_MAP :: "int \<rightharpoonup> string" where
  "PORT_MAP = map_of
    [(20, ''FTP-DATA''), (21, ''FTP''), (22, ''SSH''), (23, ''Telnet''), (25, ''SMTP''),
     (53, ''DNS''), (67, ''DHCP''), (68, ''DHCP''), (69, ''TFTP''), (80, ''HTTP''),
     (110, ''POP3''), (123, ''NTP''), (137, ''NetBIOS-NS''), (138, ''NetBIOS-DGM''),
     (139, ''NetBIOS-SSN''), (143, ''IMAP''), (161, ''SNMP''), (162, ''SNMP-TRAP''),
     (179, ''BGP''), (389, ''LDAP''), (443, ''HTTPS''), (465, ''SMTPS''), (514, ''Syslog''),
     (587, ''SMTP-Submission''), (636, ''LDAPS''), (993, ''IMAPS''), (995, ''POP3S''),
     (1080, ''SOCKS''), (1194, ''OpenVPN''), (1433, ''MSSQL''), (1521, ''Oracle DB''),
     (1723, ''PPTP''), (1812, ''RADIUS''), (2049, ''NFS''), (2082, ''cPanel''),
     (2083, ''cPanel-SSL''), (3306, ''MySQL''), (3389, ''RDP''), (3690, ''Subversion''),
     (4444, ''Metasploit''), (5000, ''UPnP''), (5432, ''PostgreSQL''), (5631, ''PCAnywhere''),
     (5900, ''VNC''), (6379, ''Redis''), (8080, ''HTTP-Alt''), (8443, ''HTTPS-Alt''),
     (8888, ''Alternate HTTP''), (9001, ''Tor ORPort''), (9200, ''Elasticsearch''),
     (10000, ''Webmin''), (27017, ''MongoDB''), (50000, ''SAP''), (64738, ''Mumble'')]"

definition METRICS_INTERVAL :: real where
  "METRICS_INTERVAL = 5"

definition BUFFER_MAXLEN :: nat where
  "BUFFER_MAXLEN = 1000"

section \<open>Packet parser\<close>

text \<open>
  \<^verbatim>\<open>float(value)\<close> and \<open>int(value)\<close> are Python built-ins, not code of the script: the
  parser takes them as the parameters \<open>to_float\<close> and \<open>to_int\<close>, which return \<open>None\<close>
  where the built-in raises \<^verbatim>\<open>ValueError\<close>. \<open>now\<close> is the reading of \<^verbatim>\<open>time.time()\<close>
  taken by the exception handler.
\<close>

datatype error = ValueError | StatisticsError

definition convert_field ::
  "(string \<Rightarrow> real option) \<Rightarrow> (string \<Rightarrow> int option) \<Rightarrow> string \<Rightarrow> string \<Rightarrow> packet \<Rightarrow> error + packet" where
  "convert_field to_float to_int field_name v pkt =
    (if field_name \<in> set FLOAT_FIELDS then
       (if v \<noteq> [] then
          (case to_float v of
             None \<Rightarrow> Inl ValueError
           | Some r \<Rightarrow> Inr (pkt\<lparr>floats := (floats pkt)(field_name \<mapsto> r)\<rparr>))
        else Inr (pkt\<lparr>floats := (floats pkt)(field_name \<mapsto> 0)\<rparr>))
     else if field_name \<in> set INT_FIELDS then
       (if v \<noteq> [] then
          (case to_int v of
             None \<Rightarrow> Inl ValueError
           | Some n \<Rightarrow> Inr (pkt\<lparr>ints := (ints pkt)(field_name \<mapsto> n)\<rparr>))
        else Inr (pkt\<lparr>ints := (ints pkt)(field_name \<mapsto> 0)\<rparr>))
     else if field_name = ''tcp.analysis.retransmission'' then
       Inr (pkt\<lparr>bools := (bools pkt)(field_name \<mapsto> (v = ''1''))\<rparr>)
     else Inr (pkt\<lparr>strs := (strs pkt)(field_name \<mapsto> v)\<rparr>))"

text \<open>The \<^verbatim>\<open>for i, field_name in enumerate(header)\<close> loop, from index \<open>i\<close> on.\<close>

fun parse_fields ::
  "(string \<Rightarrow> real option) \<Rightarrow> (string \<Rightarrow> int option) \<Rightarrow> string list \<Rightarrow> nat \<Rightarrow> string list \<Rightarrow> packet
   \<Rightarrow> error + packet" where
  "parse_fields to_float to_int raw_fields i [] pkt = Inr pkt"
| "parse_fields to_float to_int raw_fields i (field_name # header) pkt =
    (let v = (if i < length raw_fields then raw_fields ! i else [])
     in case convert_field to_float to_int field_name v pkt of
          Inl e \<Rightarrow> Inl e
        | Inr pkt' \<Rightarrow> parse_fields to_float to_int raw_fields (Suc i) header pkt')"

definition default_packet :: "real \<Rightarrow> packet" where
  "default_packet now =
    \<lparr>floats = [''frame.time_epoch'' \<mapsto> now, ''tcp.analysis.ack_rtt'' \<mapsto> 0,
               ''frame.time_delta'' \<mapsto> 0, ''dns.time'' \<mapsto> 0],
     ints = [''frame.len'' \<mapsto> 64, ''tcp.srcport'' \<mapsto> 0, ''tcp.dstport'' \<mapsto> 0,
             ''ip.ttl'' \<mapsto> 64, ''tcp.window_size_value'' \<mapsto> 0],
     bools = [''tcp.analysis.retransmission'' \<mapsto> False],
     strs = [''ip.src'' \<mapsto> ''unknown'', ''ip.dst'' \<mapsto> ''unknown'',
             ''_ws.col.protocol'' \<mapsto> ''Unknown'', ''tcp.flags'' \<mapsto> '''']\<rparr>"

definition parse_packet ::
  "real \<Rightarrow> (string \<Rightarrow> real option) \<Rightarrow> (string \<Rightarrow> int option) \<Rightarrow> string list \<Rightarrow> string list \<Rightarrow> packet" where
  "parse_packet now to_float to_int raw_fields header =
    (case parse_fields to_float to_int raw_fields 0 header empty_packet of
       Inr pkt \<Rightarrow> pkt
     | Inl e \<Rightarrow> default_packet now)"

text \<open>
  Converters for the plain decimal fragment of the two built-ins (digits only, and digits
  with one decimal point), used to run the parser on concrete capture lines.
\<close>

definition digit_val :: "char \<Rightarrow> nat option" where
  "digit_val c = map_of (zip ''0123456789'' [0, 1, 2, 3, 4, 5, 6, 7, 8, 9]) c"

fun dec_nat :: "nat \<Rightarrow> string \<Rightarrow> nat option" where
  "dec_nat acc [] = Some acc"
| "dec_nat acc (c # cs) =
    (case digit_val c of None \<Rightarrow> None | Some d \<Rightarrow> dec_nat (10 * acc + d) cs)"

definition dec_int :: "string \<Rightarrow> int option" where
  "dec_int s = (if s = [] then None else map_option int (dec_nat 0 s))"

definition dec_float :: "string \<Rightarrow> real option" where
  "dec_float s =
    (let ip = takeWhile (\<lambda>c. c \<noteq> CHR ''.'') s; fp = drop (Suc (length ip)) s
     in if ip = [] then None
        else case (dec_nat 0 ip, dec_nat 0 fp) of
               (Some a, Some b) \<Rightarrow> Some (real a + real b / 10 ^ length fp)
             | _ \<Rightarrow> None)"

section \<open>Application classifier\<close>

text \<open>\<^verbatim>\<open>str(n)\<close> for the integer inside the f-string \<^verbatim>\<open>f"App-Port-{dst_port}"\<close>.\<close>

function str_nat :: "nat \<Rightarrow> string" where
  "str_nat n =
    (if n < 10 then [''0123456789'' ! n]
     else str_nat (n div 10) @ [''0123456789'' ! (n mod 10)])"
  by pat_completeness auto
termination
  by (relation "measure id") auto

definition str_int :: "int \<Rightarrow> string" where
  "str_int i = (if i < 0 then CHR ''-'' # str_nat (nat (- i)) else str_nat (nat i))"

text \<open>The three reads of a packet that the classifier and the protocol histogram make.\<close>

definition src_port_of :: "packet \<Rightarrow> int" where
  "src_port_of p = get_int p ''tcp.srcport'' 0"

definition dst_port_of :: "packet \<Rightarrow> int" where
  "dst_port_of p = get_int p ''tcp.dstport'' 0"

definition protocol_label :: "packet \<Rightarrow> string" where
  "protocol_label p = get_str p ''_ws.col.protocol'' ''Unknown''"

text \<open>The label that the body of the loop of \<^verbatim>\<open>identify_top_applications\<close> gives one packet.\<close>

definition app_name :: "packet \<Rightarrow> string" where
  "app_name p =
    (let src_port = src_port_of p;
         dst_port = dst_port_of p
     in if PORT_MAP src_port \<noteq> None then the (PORT_MAP src_port)
        else if PORT_MAP dst_port \<noteq> None then the (PORT_MAP dst_port)
        else if dst_port > 1024 \<and> dst_port < 49151 then ''App-Port-'' @ str_int dst_port
        else (let protocol = protocol_label p
              in if protocol \<noteq> [] \<and> protocol \<noteq> ''Unknown'' then protocol else ''Unknown''))"

text \<open>
  \<^verbatim>\<open>d[k] += n\<close> on a \<^verbatim>\<open>defaultdict(int)\<close>: the dict keeps its keys in the order of their
  first insertion, so it is an association list.
\<close>

fun dd_add :: "'k \<Rightarrow> int \<Rightarrow> ('k \<times> int) list \<Rightarrow> ('k \<times> int) list" where
  "dd_add k n [] = [(k, 0 + n)]"
| "dd_add k n ((k', v) # kvs) = (if k = k' then (k', v + n) # kvs else (k', v) # dd_add k n kvs)"

definition applications_of :: "packet list \<Rightarrow> (string \<times> int) list" where
  "applications_of packets =
    foldl (\<lambda>applications p. dd_add (app_name p) (get_int p ''frame.len'' 0) applications) [] packets"

text \<open>
  \<^verbatim>\<open>sorted(app_list, key=..., reverse=True)\<close> is stable: entries of equal size keep their
  order, which is what the stable insertion sort on the negated size does.
\<close>

definition identify_top_applications :: "packet list \<Rightarrow> nat \<Rightarrow> (string \<times> int) list" where
  "identify_top_applications packets top_n =
    (if packets = [] then []
     else take top_n (sort_key (\<lambda>x. - snd x) (applications_of packets)))"

section \<open>Metrics engine\<close>

definition calculate_average :: "real list \<Rightarrow> real" where
  "calculate_average vs = (if vs = [] then 0 else sum_list vs / real (length vs))"

text \<open>
  \<^verbatim>\<open>statistics.stdev\<close> belongs to Python's standard library, not to the script. It is
  modelled as the library computes it: it raises \<^verbatim>\<open>StatisticsError\<close> below two data
  points, and otherwise takes the square root of the sample variance, whose sum of squared
  deviations it obtains in exact arithmetic from the sum and the sum of squares of the data,
  \<open>(n * sxx - sx * sx) / n\<close>.
\<close>

definition statistics_stdev :: "real list \<Rightarrow> error + real" where
  "statistics_stdev data =
    (let n = length data;
         sx = sum_list data;
         sxx = sum_list (map (\<lambda>x. x * x) data);
         ssd = (real n * sxx - sx * sx) / real n
     in if n < 2 then Inl StatisticsError else Inr (sqrt (ssd / (real n - 1))))"

text \<open>
  The \<^verbatim>\<open>except\<close> branch of \<^verbatim>\<open>calculate_std_dev\<close>, read in exact arithmetic.
  \<^verbatim>\<open>statistics.stdev\<close> raises only below two data points, which the guard before the
  \<^verbatim>\<open>try\<close> excludes, so over the reals the branch is never taken. The source computes
  it in doubles, where its value can differ from that of \<^verbatim>\<open>statistics.stdev\<close> in the
  last bits; the model does not represent that difference and states nothing about it.
\<close>

definition std_dev_fallback :: "real list \<Rightarrow> real" where
  "std_dev_fallback vs =
    (let avg = calculate_average vs;
         squared_diff_sum = sum_list (map (\<lambda>x. (x - avg) ^ 2) vs);
         variance = squared_diff_sum / (real (length vs) - 1)
     in sqrt variance)"

definition calculate_std_dev :: "real list \<Rightarrow> real" where
  "calculate_std_dev vs =
    (if length vs \<le> 1 then 0
     else case statistics_stdev vs of
            Inr s \<Rightarrow> s
          | Inl e \<Rightarrow> std_dev_fallback vs)"

text \<open>
  Python's \<^verbatim>\<open>round(x)\<close> rounds to the nearest integer and a tie to the even one;
  \<^verbatim>\<open>round(x, 2)\<close> does the same at the second decimal place.
\<close>

definition py_round :: "real \<Rightarrow> int" where
  "py_round x =
    (let f = \<lfloor>x\<rfloor>; d = x - of_int f
     in if d < 1 / 2 then f else if 1 / 2 < d then f + 1 else if even f then f else f + 1)"

definition round2 :: "real \<Rightarrow> real" where
  "round2 x = of_int (py_round (x * 100)) / 100"

record metrics =
  timestamp :: real
  latency :: real
  jitter :: real
  bandwidth :: real
  packet_loss :: real
  dns_delay :: real
  health_score :: int
  stability :: string
  congestion_level :: string
  packet_count :: nat
  protocol_counts :: "(string \<times> int) list"
  top_applications :: "string list"

text \<open>
  The local variables of \<^verbatim>\<open>calculate_network_metrics\<close>, each as a function of the
  snapshot, under the name it has in the source.
\<close>

definition rtt_values :: "packet list \<Rightarrow> real list" where
  "rtt_values packets =
    map (\<lambda>p. get_float p ''tcp.analysis.ack_rtt'' 0 * 1000)
      (filter (\<lambda>p. get_float p ''tcp.analysis.ack_rtt'' 0 > 0) packets)"

definition latency_of :: "packet list \<Rightarrow> real" where
  "latency_of packets =
    (if rtt_values packets \<noteq> [] then calculate_average (rtt_values packets) else 0)"

definition delta_values :: "packet list \<Rightarrow> real list" where
  "delta_values packets =
    map (\<lambda>p. get_float p ''frame.time_delta'' 0 * 1000)
      (filter (\<lambda>p. get_float p ''frame.time_delta'' 0 > 0) packets)"

definition jitter_of :: "packet list \<Rightarrow> real" where
  "jitter_of packets =
    (if delta_values packets \<noteq> [] then calculate_std_dev (delta_values packets) else 0)"

definition total_bytes :: "packet list \<Rightarrow> int" where
  "total_bytes packets = sum_list (map (\<lambda>p. get_int p ''frame.len'' 0) packets)"

definition timestamps :: "packet list \<Rightarrow> real list" where
  "timestamps packets = map (\<lambda>p. get_float p ''frame.time_epoch'' 0) packets"

definition bandwidth_of :: "packet list \<Rightarrow> real" where
  "bandwidth_of packets =
    (case timestamps packets of
       [] \<Rightarrow> 0
     | t # ts \<Rightarrow>
        (let time_span = foldl max t ts - foldl min t ts
         in if time_span > 0
            then of_int (total_bytes packets * 8) / (time_span * 1000000)
            else 0))"

definition retransmissions :: "packet list \<Rightarrow> nat" where
  "retransmissions packets =
    length (filter (\<lambda>p. get_bool p ''tcp.analysis.retransmission'' False) packets)"

definition packet_loss_of :: "packet list \<Rightarrow> real" where
  "packet_loss_of packets =
    (if packets \<noteq> [] then real (retransmissions packets) / real (length packets) * 100 else 0)"

definition dns_delay_values :: "packet list \<Rightarrow> real list" where
  "dns_delay_values packets =
    (let dns_packets = filter (\<lambda>p. get_str p ''_ws.col.protocol'' [] = ''DNS'') packets
     in map (\<lambda>p. get_float p ''dns.time'' 0 * 1000)
          (filter (\<lambda>p. get_float p ''dns.time'' 0 > 0) dns_packets))"

definition dns_delay_of :: "packet list \<Rightarrow> real" where
  "dns_delay_of packets =
    (if dns_delay_values packets \<noteq> [] then calculate_average (dns_delay_values packets) else 0)"

definition window_values :: "packet list \<Rightarrow> real list" where
  "window_values packets =
    map (\<lambda>p. of_int (get_int p ''tcp.window_size_value'' 0))
      (filter (\<lambda>p. get_int p ''tcp.window_size_value'' 0 > 0) packets)"

definition avg_window_of :: "packet list \<Rightarrow> real" where
  "avg_window_of packets =
    (if window_values packets \<noteq> [] then calculate_average (window_values packets) else 0)"

definition congestion_level_of :: "real \<Rightarrow> real \<Rightarrow> string" where
  "congestion_level_of avg_window bw =
    (if avg_window > 8000 \<and> bw > 5 then ''Low''
     else if avg_window > 4000 \<or> bw > 2 then ''Moderate''
     else ''High'')"

definition stability_of :: "real \<Rightarrow> real \<Rightarrow> string" where
  "stability_of jit loss =
    (if jit < 10 \<and> loss < 1 then ''Stable''
     else if jit < 30 \<and> loss < 5 then ''Unstable''
     else ''Very Unstable'')"

definition health_score_of :: "real \<Rightarrow> real \<Rightarrow> real \<Rightarrow> real \<Rightarrow> real \<Rightarrow> int" where
  "health_score_of lat jit loss bw dns =
    (let latency_score = max 0 (100 - lat / 2) * 0.3;
         jitter_score = max 0 (100 - jit * 2) * 0.2;
         packet_loss_score = max 0 (100 - loss * 10) * 0.25;
         bandwidth_score = min 100 (bw * 10) * 0.15;
         dns_score = max 0 (100 - dns * 2) * 0.1;
         score = py_round (latency_score + jitter_score + packet_loss_score + bandwidth_score
                           + dns_score)
     in max 1 (min 100 score))"

definition protocol_counts_of :: "packet list \<Rightarrow> (string \<times> int) list" where
  "protocol_counts_of packets =
    foldl (\<lambda>counts p. dd_add (protocol_label p) 1 counts) [] packets"

text \<open>\<open>now\<close> is the reading of \<^verbatim>\<open>time.time()\<close> stored as the record's timestamp.\<close>

definition calculate_network_metrics :: "real \<Rightarrow> packet list \<Rightarrow> metrics option" where
  "calculate_network_metrics now packets =
    (if packets = [] then None
     else
       (let lat = latency_of packets;
            jit = jitter_of packets;
            bw = bandwidth_of packets;
            loss = packet_loss_of packets;
            dns = dns_delay_of packets;
            top_apps = identify_top_applications packets 5
        in Some \<lparr>timestamp = now,
                 latency = round2 lat,
                 jitter = round2 jit,
                 bandwidth = round2 bw,
                 packet_loss = round2 loss,
                 dns_delay = round2 dns,
                 health_score = health_score_of lat jit loss bw dns,
                 stability = stability_of jit loss,
                 congestion_level = congestion_level_of (avg_window_of packets) bw,
                 packet_count = length packets,
                 protocol_counts = protocol_counts_of packets,
                 top_applications = map fst (take 3 top_apps)\<rparr>))"

section \<open>Bounded packet buffer\<close>

text \<open>
  \<^verbatim>\<open>packet_buffer = deque(maxlen=1000)\<close>. A \<^verbatim>\<open>collections.deque\<close> with a maximum length
  appends on the right and, when that makes it longer than the maximum, drops one item
  from the left.
\<close>

definition deque_append :: "nat \<Rightarrow> 'a list \<Rightarrow> 'a \<Rightarrow> 'a list" where
  "deque_append maxlen d x = (let d' = d @ [x] in if length d' > maxlen then tl d' else d')"

definition append_all :: "nat \<Rightarrow> 'a list \<Rightarrow> 'a list \<Rightarrow> 'a list" where
  "append_all maxlen d xs = foldl (deque_append maxlen) d xs"

section \<open>Aggregation scheduler\<close>

text \<open>
  \<^verbatim>\<open>line.strip()\<close> removes the white space at both ends; \<^verbatim>\<open>line.split(',')\<close> cuts at
  every comma and keeps empty pieces. A character is a code point below 256 here, and the
  white space is what \<^verbatim>\<open>str.isspace\<close> accepts among those.
\<close>

definition is_space :: "char \<Rightarrow> bool" where
  "is_space c \<longleftrightarrow> (of_char c :: nat) \<in> set [9, 10, 11, 12, 13, 28, 29, 30, 31, 32, 133, 160]"

definition py_strip :: "string \<Rightarrow> string" where
  "py_strip s = rev (dropWhile is_space (rev (dropWhile is_space s)))"

fun split_on :: "char \<Rightarrow> string \<Rightarrow> string list" where
  "split_on c [] = [[]]"
| "split_on c (x # xs) =
    (if x = c then [] # split_on c xs
     else (case split_on c xs of
             w # ws \<Rightarrow> (x # w) # ws
           | [] \<Rightarrow> [[x]]))"

text \<open>
  The globals that the loop of \<^verbatim>\<open>start_capture\<close> reads and writes, and the rows it has
  handed to the CSV writer.
\<close>

record capture_state =
  header :: "string list option"
  packet_buffer :: "packet list"
  packets_seen :: nat
  last_metrics_time :: real
  csv_rows :: "metrics list"

text \<open>
  What one turn of the loop receives: either \<^verbatim>\<open>readline()\<close> returned the empty string,
  with the flag telling whether the capture process has ended, or it returned a line,
  with the three clock readings the turn may take (in \<^verbatim>\<open>parse_packet\<close>, as
  \<^verbatim>\<open>current_time\<close>, and in \<^verbatim>\<open>calculate_network_metrics\<close>).
\<close>

datatype reading = Eof bool | Line string real real real

definition process_line ::
  "(string \<Rightarrow> real option) \<Rightarrow> (string \<Rightarrow> int option) \<Rightarrow> string \<Rightarrow> real \<Rightarrow> real \<Rightarrow> real
   \<Rightarrow> capture_state \<Rightarrow> capture_state" where
  "process_line to_float to_int raw t_parse current_time t_metrics st =
    (let line = py_strip raw
     in if line = [] then st
        else case header st of
               None \<Rightarrow> st\<lparr>header := Some (split_on CHR '','' line)\<rparr>
             | Some h \<Rightarrow>
                (let pkt = parse_packet t_parse to_float to_int (split_on CHR '','' line) h;
                     buf = deque_append BUFFER_MAXLEN (packet_buffer st) pkt;
                     st' = st\<lparr>packet_buffer := buf, packets_seen := packets_seen st + 1\<rparr>
                 in if current_time - last_metrics_time st \<ge> METRICS_INTERVAL \<and> buf \<noteq> []
                    then (case calculate_network_metrics t_metrics buf of
                            Some m \<Rightarrow>
                              st'\<lparr>csv_rows := csv_rows st' @ [m],
                                  last_metrics_time := current_time\<rparr>
                          | None \<Rightarrow> st')
                    else st'))"

text \<open>The \<^verbatim>\<open>while True\<close> loop over the readings it is given; it breaks when the process has ended.\<close>

fun capture_loop ::
  "(string \<Rightarrow> real option) \<Rightarrow> (string \<Rightarrow> int option) \<Rightarrow> reading list \<Rightarrow> capture_state
   \<Rightarrow> capture_state" where
  "capture_loop to_float to_int [] st = st"
| "capture_loop to_float to_int (Eof terminated # rs) st =
    (if terminated then st else capture_loop to_float to_int rs st)"
| "capture_loop to_float to_int (Line raw t_parse current_time t_metrics # rs) st =
    capture_loop to_float to_int rs
      (process_line to_float to_int raw t_parse current_time t_metrics st)"

text \<open>The state in which \<^verbatim>\<open>start_capture\<close> enters the loop at clock reading \<open>t0\<close>.\<close>

definition initial_state :: "real \<Rightarrow> capture_state" where
  "initial_state t0 =
    \<lparr>header = None, packet_buffer = [], packets_seen = 0, last_metrics_time = t0,
     csv_rows = []\<rparr>"

text \<open>A reading is a packet when it is a non-blank line read after the header line.\<close>

definition is_packet_arrival :: "capture_state \<Rightarrow> reading \<Rightarrow> bool" where
  "is_packet_arrival st r =
    (case r of
       Eof terminated \<Rightarrow> False
     | Line raw t_parse current_time t_metrics \<Rightarrow> py_strip raw \<noteq> [] \<and> header st \<noteq> None)"

section \<open>Specification-side notions and sample inputs\<close>

text \<open>A packet that carries only its two ports and its protocol label.\<close>

definition pkt_ports :: "int \<Rightarrow> int \<Rightarrow> string \<Rightarrow> packet" where
  "pkt_ports s d pr =
    empty_packet\<lparr>ints := [''tcp.srcport'' \<mapsto> s, ''tcp.dstport'' \<mapsto> d],
                 strs := [''_ws.col.protocol'' \<mapsto> pr]\<rparr>"

text \<open>
  The sample standard deviation as the specification words it: the square root of the sum
  of the squared differences from the mean, divided by \<open>n - 1\<close>.
\<close>

definition sample_std_dev :: "real list \<Rightarrow> real" where
  "sample_std_dev xs =
    (let n = real (length xs); mean = sum_list xs / n
     in sqrt (sum_list (map (\<lambda>x. (x - mean) ^ 2) xs) / (n - 1)))"

text \<open>A packet that carries only an inter-frame delta.\<close>

definition pkt_delta :: "real \<Rightarrow> packet" where
  "pkt_delta d = empty_packet\<lparr>floats := [''frame.time_delta'' \<mapsto> d]\<rparr>"

text \<open>
  The first scenario of the specification: ten TCP packets of 100 bytes, without round-trip
  estimate, inter-frame delta or retransmission, captured over exactly one second.
\<close>

definition scenario_packet :: "real \<Rightarrow> packet" where
  "scenario_packet t =
    \<lparr>floats = [''frame.time_epoch'' \<mapsto> t, ''tcp.analysis.ack_rtt'' \<mapsto> 0,
               ''frame.time_delta'' \<mapsto> 0, ''dns.time'' \<mapsto> 0],
     ints = [''frame.len'' \<mapsto> 100, ''tcp.srcport'' \<mapsto> 50001, ''tcp.dstport'' \<mapsto> 50002,
             ''ip.ttl'' \<mapsto> 64, ''tcp.window_size_value'' \<mapsto> 0],
     bools = [''tcp.analysis.retransmission'' \<mapsto> False],
     strs = [''ip.src'' \<mapsto> ''10.0.0.1'', ''ip.dst'' \<mapsto> ''10.0.0.2'',
             ''_ws.col.protocol'' \<mapsto> ''TCP'', ''tcp.flags'' \<mapsto> '''']\<rparr>"

definition scenario_1 :: "packet list" where
  "scenario_1 =
    map scenario_packet [0, 1 / 10, 2 / 10, 3 / 10, 4 / 10, 5 / 10, 6 / 10, 7 / 10, 8 / 10, 1]"

text \<open>
  A conversion error, in the words of the specification: some field of the header that
  holds a float or an int meets a non-empty raw value that the built-in conversion rejects.
  A value missing at the end of the line counts as the empty string.
\<close>

definition value_at :: "string list \<Rightarrow> nat \<Rightarrow> string" where
  "value_at raw_fields i = (if i < length raw_fields then raw_fields ! i else [])"

definition malformed ::
  "(string \<Rightarrow> real option) \<Rightarrow> (string \<Rightarrow> int option) \<Rightarrow> string \<Rightarrow> string \<Rightarrow> bool" where
  "malformed to_float to_int field_name v \<longleftrightarrow>
    v \<noteq> [] \<and>
    (field_name \<in> set FLOAT_FIELDS \<and> to_float v = None \<or>
     field_name \<in> set INT_FIELDS \<and> to_int v = None)"

definition conversion_error ::
  "(string \<Rightarrow> real option) \<Rightarrow> (string \<Rightarrow> int option) \<Rightarrow> string list \<Rightarrow> string list \<Rightarrow> bool" where
  "conversion_error to_float to_int raw_fields hdr \<longleftrightarrow>
    list_ex (\<lambda>(i, field_name). malformed to_float to_int field_name (value_at raw_fields i))
      (enumerate 0 hdr)"

text \<open>
  Two capture lines under the header of the capture process: a sound one, and one whose
  frame length is not a number.
\<close>

definition good_line :: "string list" where
  "good_line =
    [''1700000000.5'', ''10.0.0.1'', ''10.0.0.2'', ''TCP'', ''60'', ''443'', ''51000'', ''64'',
     ''0x0010'', ''501'', ''0.25'', [], ''0.125'', []]"

definition bad_line :: "string list" where
  "bad_line =
    [''1700000000.5'', ''10.0.0.1'', ''10.0.0.2'', ''TCP'', ''sixty'', ''443'', ''51000'', ''64'',
     ''0x0010'', ''501'', ''0.25'', [], ''0.125'', []]"

text \<open>A reading at which no packet can arrive: nothing was read, or the line is blank.\<close>

definition quiet :: "reading \<Rightarrow> bool" where
  "quiet r =
    (case r of
       Eof terminated \<Rightarrow> True
     | Line raw t_parse current_time t_metrics \<Rightarrow> py_strip raw = [])"

section \<open>Properties of the metrics engine\<close>

lemma py_round_near: "\<bar>of_int (py_round x) - x\<bar> \<le> 1 / 2"
  by (simp add: py_round_def Let_def)

lemma round2_two_decimals:
  "(\<exists>k::int. round2 x = of_int k / 100) \<and> \<bar>round2 x - x\<bar> \<le> 1 / 200"
proof
  show "\<exists>k::int. round2 x = of_int k / 100"
    by (auto simp: round2_def)
  have "\<bar>of_int (py_round (x * 100)) - x * 100\<bar> \<le> 1 / 2"
    by (rule py_round_near)
  then show "\<bar>round2 x - x\<bar> \<le> 1 / 200"
    by (simp add: round2_def field_simps)
qed

lemma round2_zero: "round2 0 = 0"
  by (simp add: round2_def py_round_def)

lemma health_score_of_range:
  "1 \<le> health_score_of lat jit loss bw dns \<and> health_score_of lat jit loss bw dns \<le> 100"
  by (simp add: health_score_of_def Let_def)

text \<open>
  Claim C1. For every non-empty snapshot the metrics computation produces a record, and
  the record's health score is an integer between 1 and 100, both ends included.
\<close>

theorem health_score_clamped:
  "packets \<noteq> [] \<Longrightarrow>
   \<exists>m. calculate_network_metrics now packets = Some m \<and> 1 \<le> health_score m \<and> health_score m \<le> 100"
  using health_score_of_range by (simp add: calculate_network_metrics_def Let_def)

theorem health_score_clamped_witness:
  "[default_packet 0] \<noteq> [] \<and>
   (\<exists>m. calculate_network_metrics 7 [default_packet 0] = Some m \<and> 1 \<le> health_score m \<and> health_score m \<le> 100)"
  using health_score_clamped [of "[default_packet 0]" 7] by simp

text \<open>
  Claim C6. The metrics computation returns no record exactly when the snapshot is empty:
  the empty snapshot gives none, and a snapshot with at least one packet gives a record.
\<close>

theorem metrics_none_iff_empty:
  "calculate_network_metrics now [] = None \<and>
   (\<exists>m. calculate_network_metrics now (p # ps) = Some m)"
  by (simp add: calculate_network_metrics_def Let_def)

section \<open>Properties of the bounded packet buffer\<close>

lemma deque_append_suffix:
  "deque_append C (drop (length ys - C) ys) x = drop (Suc (length ys) - C) (ys @ [x])"
proof (cases "length ys < C")
  case True
  then show ?thesis by (simp add: deque_append_def Let_def)
next
  case False
  then have ge: "C \<le> length ys" by simp
  show ?thesis
  proof (cases "C = 0")
    case True
    then show ?thesis by (simp add: deque_append_def Let_def)
  next
    case False
    with ge have eq: "Suc (length ys) - C = Suc (length ys - C)" by simp
    have "deque_append C (drop (length ys - C) ys) x = tl (drop (length ys - C) ys @ [x])"
      using ge by (simp add: deque_append_def Let_def)
    also have "\<dots> = tl (drop (length ys - C) ys) @ [x]"
      using ge False by (cases "drop (length ys - C) ys") auto
    also have "\<dots> = drop (Suc (length ys - C)) ys @ [x]"
      by (simp add: drop_Suc tl_drop)
    finally show ?thesis using ge False by (simp add: eq)
  qed
qed

lemma append_all_drop:
  "append_all C [] xs = drop (length xs - C) xs"
proof (induction xs rule: rev_induct)
  case Nil
  then show ?case by (simp add: append_all_def)
next
  case (snoc x xs)
  have "append_all C [] (xs @ [x]) = deque_append C (append_all C [] xs) x"
    by (simp add: append_all_def)
  then show ?case using snoc deque_append_suffix [of C xs x] by simp
qed

text \<open>
  Claim C5. For every capacity \<open>C\<close> and every \<open>k > 0\<close>, appending \<open>C + k\<close> packets to the
  empty buffer leaves a buffer of length \<open>C\<close> that holds the last \<open>C\<close> packets appended,
  in the order of their arrival.
\<close>

theorem buffer_keeps_last_C:
  "0 < k \<Longrightarrow> length xs = C + k \<Longrightarrow>
   append_all C [] xs = drop k xs \<and> length (append_all C [] xs) = C"
  by (simp add: append_all_drop)

theorem buffer_keeps_last_C_witness:
  "(0::nat) < 2 \<and> length [10, 20, 30, 40, 50 :: nat] = 3 + 2 \<and>
   append_all 3 [] [10, 20, 30, 40, 50 :: nat] = [30, 40, 50]"
  using buffer_keeps_last_C [of 2 "[10, 20, 30, 40, 50 :: nat]" 3] by simp

section \<open>Properties of the protocol histogram\<close>

lemma sum_dd_add: "sum_list (map snd (dd_add k n kvs)) = sum_list (map snd kvs) + n"
  by (induction kvs) auto

lemma map_of_dd_add:
  "map_of (dd_add k n kvs) =
   (map_of kvs)(k \<mapsto> (case map_of kvs k of None \<Rightarrow> n | Some v \<Rightarrow> v + n))"
  by (induction kvs) (auto simp: fun_eq_iff)

lemma keys_dd_add: "fst ` set (dd_add k n kvs) = insert k (fst ` set kvs)"
  by (induction k n kvs rule: dd_add.induct) auto

lemma distinct_dd_add: "distinct (map fst kvs) \<Longrightarrow> distinct (map fst (dd_add k n kvs))"
proof (induction kvs)
  case Nil
  then show ?case by simp
next
  case (Cons a kvs)
  obtain k' v where a: "a = (k', v)" by (cases a)
  have "k' \<noteq> k \<Longrightarrow> k' \<notin> fst ` set (dd_add k n kvs)"
    using Cons.prems keys_dd_add [of k n kvs] by (auto simp: a)
  with Cons show ?case by (auto simp: a)
qed

lemma sum_protocol_counts: "sum_list (map snd (protocol_counts_of packets)) = int (length packets)"
  unfolding protocol_counts_of_def
  by (induction packets rule: rev_induct) (simp_all add: sum_dd_add)

lemma distinct_protocol_counts: "distinct (map fst (protocol_counts_of packets))"
  unfolding protocol_counts_of_def
  by (induction packets rule: rev_induct) (simp_all add: distinct_dd_add)

lemma lookup_protocol_counts:
  "map_of (protocol_counts_of packets) l =
   (if filter (\<lambda>p. protocol_label p = l) packets = [] then None
    else Some (int (length (filter (\<lambda>p. protocol_label p = l) packets))))"
  unfolding protocol_counts_of_def
  by (induction packets rule: rev_induct) (auto simp: map_of_dd_add)

text \<open>
  Claim C10. For every non-empty snapshot the record's packet count is the length of the
  snapshot and the counts of the protocol histogram add up to it: the histogram has one
  entry per label, and the entry of a label is the number of packets that carry it, a
  packet without a protocol field counting as \<^verbatim>\<open>Unknown\<close>.
\<close>

theorem protocol_counts_sum:
  "packets \<noteq> [] \<Longrightarrow>
   \<exists>m. calculate_network_metrics now packets = Some m \<and>
       packet_count m = length packets \<and>
       sum_list (map snd (protocol_counts m)) = int (packet_count m) \<and>
       distinct (map fst (protocol_counts m)) \<and>
       (\<forall>l. map_of (protocol_counts m) l =
            (if filter (\<lambda>p. protocol_label p = l) packets = [] then None
             else Some (int (length (filter (\<lambda>p. protocol_label p = l) packets)))))"
  using lookup_protocol_counts [of packets]
  by (simp add: calculate_network_metrics_def Let_def sum_protocol_counts distinct_protocol_counts)

theorem protocol_counts_sum_witness:
  "[default_packet 0, empty_packet] \<noteq> [] \<and>
   (\<exists>m. calculate_network_metrics 7 [default_packet 0, empty_packet] = Some m \<and>
        packet_count m = 2 \<and> sum_list (map snd (protocol_counts m)) = 2 \<and>
        protocol_counts m = [(''Unknown'', 2)])"
proof -
  have "protocol_counts_of [default_packet 0, empty_packet] = [(''Unknown'', 2)]"
    by (simp add: protocol_counts_of_def protocol_label_def default_packet_def
          empty_packet_def get_str_def)
  then show ?thesis
    using protocol_counts_sum [of "[default_packet 0, empty_packet]" 7]
    by (auto simp: calculate_network_metrics_def Let_def)
qed

section \<open>Properties of the application classifier\<close>

text \<open>
  Claim C3. The classifier takes the first of these that applies: the source port is in
  the port table; the destination port is in the table; the destination port lies
  strictly between 1024 and 49151, giving \<^verbatim>\<open>App-Port-\<close> followed by the port; the
  protocol label is neither empty nor \<^verbatim>\<open>Unknown\<close>; otherwise the label is
  \<^verbatim>\<open>Unknown\<close>. A packet from port 443 to port 51000 is labelled \<^verbatim>\<open>HTTPS\<close>.
\<close>

theorem classifier_priority:
  "(\<forall>a. PORT_MAP (src_port_of p) = Some a \<longrightarrow> app_name p = a) \<and>
   (\<forall>a. PORT_MAP (src_port_of p) = None \<and> PORT_MAP (dst_port_of p) = Some a \<longrightarrow> app_name p = a) \<and>
   (PORT_MAP (src_port_of p) = None \<and> PORT_MAP (dst_port_of p) = None \<and>
      1024 < dst_port_of p \<and> dst_port_of p < 49151 \<longrightarrow>
      app_name p = ''App-Port-'' @ str_int (dst_port_of p)) \<and>
   (PORT_MAP (src_port_of p) = None \<and> PORT_MAP (dst_port_of p) = None \<and>
      \<not> (1024 < dst_port_of p \<and> dst_port_of p < 49151) \<and>
      protocol_label p \<noteq> [] \<and> protocol_label p \<noteq> ''Unknown'' \<longrightarrow>
      app_name p = protocol_label p) \<and>
   (PORT_MAP (src_port_of p) = None \<and> PORT_MAP (dst_port_of p) = None \<and>
      \<not> (1024 < dst_port_of p \<and> dst_port_of p < 49151) \<and>
      (protocol_label p = [] \<or> protocol_label p = ''Unknown'') \<longrightarrow>
      app_name p = ''Unknown'') \<and>
   (src_port_of p = 443 \<and> dst_port_of p = 51000 \<longrightarrow> app_name p = ''HTTPS'')"
proof -
  have "PORT_MAP 443 = Some ''HTTPS''" by (simp add: PORT_MAP_def)
  then show ?thesis by (auto simp: app_name_def Let_def)
qed

lemma pkt_ports_reads:
  "src_port_of (pkt_ports s d pr) = s" "dst_port_of (pkt_ports s d pr) = d"
  "protocol_label (pkt_ports s d pr) = pr"
  by (simp_all add: pkt_ports_def src_port_of_def dst_port_of_def protocol_label_def
        get_int_def get_str_def empty_packet_def)

theorem classifier_priority_witness:
  "app_name (pkt_ports 443 51000 ''TCP'') = ''HTTPS'' \<and>
   app_name (pkt_ports 51000 80 ''TCP'') = ''HTTP'' \<and>
   app_name (pkt_ports 51000 8000 ''TCP'') = ''App-Port-8000'' \<and>
   app_name (pkt_ports 0 0 ''ICMP'') = ''ICMP'' \<and>
   app_name (pkt_ports 0 0 []) = ''Unknown''"
proof -
  have m: "PORT_MAP 443 = Some ''HTTPS''" "PORT_MAP 51000 = None" "PORT_MAP 80 = Some ''HTTP''"
    "PORT_MAP 8000 = None" "PORT_MAP 0 = None"
    by (simp_all add: PORT_MAP_def)
  have s: "str_int 8000 = ''8000''" by (simp add: str_int_def)
  have "app_name (pkt_ports 443 51000 ''TCP'') = ''HTTPS''"
    using classifier_priority [of "pkt_ports 443 51000 ''TCP''"] by (simp add: pkt_ports_reads)
  moreover have "app_name (pkt_ports 51000 80 ''TCP'') = ''HTTP''"
    using classifier_priority [of "pkt_ports 51000 80 ''TCP''"] m by (simp add: pkt_ports_reads)
  moreover have "app_name (pkt_ports 51000 8000 ''TCP'') = ''App-Port-8000''"
    using classifier_priority [of "pkt_ports 51000 8000 ''TCP''"] m s by (simp add: pkt_ports_reads)
  moreover have "app_name (pkt_ports 0 0 ''ICMP'') = ''ICMP''"
    using classifier_priority [of "pkt_ports 0 0 ''ICMP''"] m by (simp add: pkt_ports_reads)
  moreover have "app_name (pkt_ports 0 0 []) = ''Unknown''"
    using classifier_priority [of "pkt_ports 0 0 []"] m by (simp add: pkt_ports_reads)
  ultimately show ?thesis by blast
qed

section \<open>Properties of the standard deviation\<close>

lemma sum_squared_diff:
  "sum_list (map (\<lambda>x. (x - a) ^ 2) xs) =
   sum_list (map (\<lambda>x. x * x) xs) - 2 * a * sum_list xs + real (length xs) * a ^ 2"
  by (induction xs) (simp_all add: algebra_simps power2_eq_square)

lemma one_pass_ssd:
  assumes "xs \<noteq> []"
  shows "(real (length xs) * sum_list (map (\<lambda>x. x * x) xs) - sum_list xs * sum_list xs)
           / real (length xs) =
         sum_list (map (\<lambda>x. (x - sum_list xs / real (length xs)) ^ 2) xs)"
proof -
  from assms have n: "real (length xs) \<noteq> 0" by simp
  show ?thesis
    unfolding sum_squared_diff [of "sum_list xs / real (length xs)" xs]
    using n by (simp add: field_simps power2_eq_square)
qed

lemma statistics_stdev_value:
  "2 \<le> length vs \<Longrightarrow> statistics_stdev vs = Inr (sample_std_dev vs)"
proof -
  assume len: "2 \<le> length vs"
  then have "vs \<noteq> []" by auto
  from one_pass_ssd [OF this] len show ?thesis
    by (simp add: statistics_stdev_def sample_std_dev_def Let_def)
qed

lemma calculate_std_dev_value:
  "calculate_std_dev vs = (if length vs < 2 then 0 else sample_std_dev vs)"
  using statistics_stdev_value [of vs] by (auto simp: calculate_std_dev_def)

text \<open>
  Claim C7. For every non-empty snapshot the jitter is the sample standard deviation
  (denominator \<open>n - 1\<close>) of the inter-frame deltas times 1000, taken over the packets whose
  delta is strictly positive, and it is 0 when there are fewer than two such packets; the
  latency is 0 when no packet has a strictly positive round-trip estimate. The record
  carries both values rounded to two decimals.
\<close>

theorem jitter_is_sample_std_dev:
  "packets \<noteq> [] \<Longrightarrow>
   (let samples = map (\<lambda>p. get_float p ''frame.time_delta'' 0 * 1000)
                    (filter (\<lambda>p. 0 < get_float p ''frame.time_delta'' 0) packets)
    in jitter_of packets = (if length samples < 2 then 0 else sample_std_dev samples)) \<and>
   ((\<forall>p \<in> set packets. \<not> 0 < get_float p ''tcp.analysis.ack_rtt'' 0) \<longrightarrow> latency_of packets = 0) \<and>
   (\<exists>m. calculate_network_metrics now packets = Some m \<and>
        jitter m = round2 (jitter_of packets) \<and> latency m = round2 (latency_of packets) \<and>
        (length (filter (\<lambda>p. 0 < get_float p ''frame.time_delta'' 0) packets) < 2 \<longrightarrow>
           jitter m = 0) \<and>
        ((\<forall>p \<in> set packets. \<not> 0 < get_float p ''tcp.analysis.ack_rtt'' 0) \<longrightarrow> latency m = 0))"
proof -
  assume ne: "packets \<noteq> []"
  have j: "jitter_of packets =
      (if length (delta_values packets) < 2 then 0 else sample_std_dev (delta_values packets))"
    by (auto simp: jitter_of_def calculate_std_dev_value)
  have l: "(\<forall>p \<in> set packets. \<not> 0 < get_float p ''tcp.analysis.ack_rtt'' 0) \<longrightarrow> latency_of packets = 0"
    by (auto simp: latency_of_def rtt_values_def filter_empty_conv)
  from ne obtain m where m: "calculate_network_metrics now packets = Some m"
    "jitter m = round2 (jitter_of packets)" "latency m = round2 (latency_of packets)"
    by (simp add: calculate_network_metrics_def Let_def)
  have jz: "length (filter (\<lambda>p. 0 < get_float p ''frame.time_delta'' 0) packets) < 2 \<longrightarrow>
      jitter m = 0"
    using j m(2) by (simp add: delta_values_def round2_zero)
  have lz: "(\<forall>p \<in> set packets. \<not> 0 < get_float p ''tcp.analysis.ack_rtt'' 0) \<longrightarrow> latency m = 0"
    using l m(3) by (simp add: round2_zero)
  from j have j': "let samples = map (\<lambda>p. get_float p ''frame.time_delta'' 0 * 1000)
                    (filter (\<lambda>p. 0 < get_float p ''frame.time_delta'' 0) packets)
    in jitter_of packets = (if length samples < 2 then 0 else sample_std_dev samples)"
    by (simp add: delta_values_def Let_def)
  from j' l m jz lz show ?thesis by blast
qed

theorem jitter_is_sample_std_dev_witness:
  "[pkt_delta (1 / 1000), pkt_delta 0, pkt_delta (3 / 1000)] \<noteq> [] \<and>
   jitter_of [pkt_delta (1 / 1000), pkt_delta 0, pkt_delta (3 / 1000)] = sqrt 2 \<and>
   latency_of [pkt_delta (1 / 1000), pkt_delta 0, pkt_delta (3 / 1000)] = 0 \<and>
   jitter_of [pkt_delta (1 / 1000), pkt_delta 0] = 0"
proof -
  have g: "get_float (pkt_delta d) ''frame.time_delta'' 0 = d"
    "get_float (pkt_delta d) ''tcp.analysis.ack_rtt'' 0 = 0" for d
    by (simp_all add: pkt_delta_def get_float_def empty_packet_def)
  have s: "sample_std_dev [1, 3] = sqrt 2"
    by (simp add: sample_std_dev_def Let_def)
  have "jitter_of [pkt_delta (1 / 1000), pkt_delta 0, pkt_delta (3 / 1000)] = sqrt 2 \<and>
        latency_of [pkt_delta (1 / 1000), pkt_delta 0, pkt_delta (3 / 1000)] = 0"
    using jitter_is_sample_std_dev [of "[pkt_delta (1 / 1000), pkt_delta 0, pkt_delta (3 / 1000)]" 0]
    by (simp add: g s Let_def)
  moreover have "jitter_of [pkt_delta (1 / 1000), pkt_delta 0] = 0"
    using jitter_is_sample_std_dev [of "[pkt_delta (1 / 1000), pkt_delta 0]" 0]
    by (simp add: g Let_def)
  ultimately show ?thesis by simp
qed

section \<open>The first scenario\<close>

lemma round2_bandwidth: "round2 (8 / 1000) = 1 / 100"
  by (simp add: round2_def py_round_def Let_def)

lemma flip_max: "(\<lambda>x s. max s x) = (max :: real \<Rightarrow> real \<Rightarrow> real)"
  by (simp add: fun_eq_iff max.commute)

lemma flip_min: "(\<lambda>x s. min s x) = (min :: real \<Rightarrow> real \<Rightarrow> real)"
  by (simp add: fun_eq_iff min.commute)

lemma foldl_max_Max: "foldl max t ts = Max (set (t # ts))" for t :: real
  by (simp only: foldl_conv_fold flip_max Max.set_eq_fold)

lemma foldl_min_Min: "foldl min t ts = Min (set (t # ts))" for t :: real
  by (simp only: foldl_conv_fold flip_min Min.set_eq_fold)

lemma bandwidth_of_span:
  "packets \<noteq> [] \<Longrightarrow>
   bandwidth_of packets =
     (let time_span = Max (set (timestamps packets)) - Min (set (timestamps packets))
      in if time_span > 0 then of_int (total_bytes packets * 8) / (time_span * 1000000) else 0)"
  unfolding bandwidth_of_def
  by (cases "timestamps packets") (simp_all add: timestamps_def foldl_max_Max foldl_min_Min del: set_simps)

lemma total_bytes_const:
  "\<forall>p \<in> set packets. get_int p ''frame.len'' 0 = c \<Longrightarrow> total_bytes packets = c * int (length packets)"
  unfolding total_bytes_def by (induction packets) (simp_all add: algebra_simps)

text \<open>
  Claim C2, as the code has it. For a snapshot of ten packets, each with round-trip
  estimate 0, inter-frame delta 0, no retransmission and frame length 100, whose capture
  timestamps span exactly one second, the bandwidth computed before rounding is 0.008 Mbps
  and the record has latency 0, jitter 0, packet loss 0 and bandwidth 0.01: every numeric
  output of the record is the computed value rounded to two decimals.
\<close>

theorem scenario_1_record:
  assumes "length packets = 10"
    and "\<forall>p \<in> set packets.
           get_float p ''tcp.analysis.ack_rtt'' 0 = 0 \<and> get_float p ''frame.time_delta'' 0 = 0 \<and>
           \<not> get_bool p ''tcp.analysis.retransmission'' False \<and> get_int p ''frame.len'' 0 = 100"
    and "Max (set (timestamps packets)) - Min (set (timestamps packets)) = 1"
  shows "bandwidth_of packets = 8 / 1000 \<and>
    (\<exists>m. calculate_network_metrics now packets = Some m \<and>
         latency m = 0 \<and> jitter m = 0 \<and> packet_loss m = 0 \<and> bandwidth m = 1 / 100 \<and>
         latency m = round2 (latency_of packets) \<and> jitter m = round2 (jitter_of packets) \<and>
         bandwidth m = round2 (bandwidth_of packets) \<and>
         packet_loss m = round2 (packet_loss_of packets) \<and>
         dns_delay m = round2 (dns_delay_of packets) \<and>
         (\<exists>k1 k2 k3 k4 k5 :: int.
            latency m = of_int k1 / 100 \<and> jitter m = of_int k2 / 100 \<and>
            bandwidth m = of_int k3 / 100 \<and> packet_loss m = of_int k4 / 100 \<and>
            dns_delay m = of_int k5 / 100))"
proof -
  from assms(1) have ne: "packets \<noteq> []" by auto
  have lat: "latency_of packets = 0"
    using assms(2) by (simp add: latency_of_def rtt_values_def filter_empty_conv)
  have jit: "jitter_of packets = 0"
    using assms(2) by (simp add: jitter_of_def delta_values_def filter_empty_conv)
  have loss: "packet_loss_of packets = 0"
    using assms(2) by (simp add: packet_loss_of_def retransmissions_def filter_empty_conv)
  have "total_bytes packets = 100 * int (length packets)"
    using assms(2) by (intro total_bytes_const) simp
  then have bytes: "total_bytes packets = 1000" using assms(1) by simp
  have bw: "bandwidth_of packets = 8 / 1000"
    using assms(3) by (simp add: bandwidth_of_span [OF ne] bytes Let_def)
  have two: "\<exists>k::int. round2 x = of_int k / 100" for x
    using round2_two_decimals [of x] by blast
  have dec: "\<exists>k1 k2 k3 k4 k5 :: int.
      round2 (latency_of packets) = of_int k1 / 100 \<and> round2 (jitter_of packets) = of_int k2 / 100 \<and>
      round2 (bandwidth_of packets) = of_int k3 / 100 \<and>
      round2 (packet_loss_of packets) = of_int k4 / 100 \<and>
      round2 (dns_delay_of packets) = of_int k5 / 100"
    using two [of "latency_of packets"] two [of "jitter_of packets"] two [of "bandwidth_of packets"]
      two [of "packet_loss_of packets"] two [of "dns_delay_of packets"]
    by blast
  have rec: "\<exists>m. calculate_network_metrics now packets = Some m \<and>
      latency m = round2 (latency_of packets) \<and> jitter m = round2 (jitter_of packets) \<and>
      bandwidth m = round2 (bandwidth_of packets) \<and>
      packet_loss m = round2 (packet_loss_of packets) \<and>
      dns_delay m = round2 (dns_delay_of packets)"
    using ne by (simp add: calculate_network_metrics_def Let_def)
  then obtain m where m: "calculate_network_metrics now packets = Some m"
    "latency m = round2 (latency_of packets)" "jitter m = round2 (jitter_of packets)"
    "bandwidth m = round2 (bandwidth_of packets)"
    "packet_loss m = round2 (packet_loss_of packets)"
    "dns_delay m = round2 (dns_delay_of packets)"
    by blast
  have "round2 (bandwidth_of packets) = round2 (8 / 1000)" by (simp only: bw)
  then have bwm: "bandwidth m = 1 / 100" by (simp only: m round2_bandwidth)
  have vals: "latency m = 0" "jitter m = 0" "packet_loss m = 0"
    using m lat jit loss by (simp_all add: round2_zero)
  from dec m have "\<exists>k1 k2 k3 k4 k5 :: int.
            latency m = of_int k1 / 100 \<and> jitter m = of_int k2 / 100 \<and>
            bandwidth m = of_int k3 / 100 \<and> packet_loss m = of_int k4 / 100 \<and>
            dns_delay m = of_int k5 / 100"
    by simp
  with bw bwm m vals show ?thesis by blast
qed

lemma scenario_packet_reads:
  "get_float (scenario_packet t) ''frame.time_epoch'' 0 = t"
  "get_float (scenario_packet t) ''tcp.analysis.ack_rtt'' 0 = 0"
  "get_float (scenario_packet t) ''frame.time_delta'' 0 = 0"
  "get_bool (scenario_packet t) ''tcp.analysis.retransmission'' False = False"
  "get_int (scenario_packet t) ''frame.len'' 0 = 100"
  by (simp_all add: scenario_packet_def get_float_def get_bool_def get_int_def)

theorem scenario_1_record_witness:
  "length scenario_1 = 10 \<and>
   Max (set (timestamps scenario_1)) - Min (set (timestamps scenario_1)) = 1 \<and>
   bandwidth_of scenario_1 = 8 / 1000 \<and>
   map_option bandwidth (calculate_network_metrics 7 scenario_1) = Some (1 / 100) \<and>
   map_option latency (calculate_network_metrics 7 scenario_1) = Some 0 \<and>
   map_option jitter (calculate_network_metrics 7 scenario_1) = Some 0 \<and>
   map_option packet_loss (calculate_network_metrics 7 scenario_1) = Some 0"
proof -
  have a: "length scenario_1 = 10" by (simp add: scenario_1_def)
  have b: "\<forall>p \<in> set scenario_1.
           get_float p ''tcp.analysis.ack_rtt'' 0 = 0 \<and> get_float p ''frame.time_delta'' 0 = 0 \<and>
           \<not> get_bool p ''tcp.analysis.retransmission'' False \<and> get_int p ''frame.len'' 0 = 100"
    by (simp add: scenario_1_def scenario_packet_reads)
  have c: "Max (set (timestamps scenario_1)) - Min (set (timestamps scenario_1)) = 1"
    by (simp add: scenario_1_def timestamps_def scenario_packet_reads)
  from scenario_1_record [OF a b c, of 7] a c show ?thesis by auto
qed

text \<open>
  Claim C2, as the specification words it, fails: on the scenario the record's bandwidth is
  0.01, not 0.008.
\<close>

theorem scenario_1_bandwidth_counterexample:
  "map_option bandwidth (calculate_network_metrics 7 scenario_1) = Some (1 / 100) \<and>
   map_option bandwidth (calculate_network_metrics 7 scenario_1) \<noteq> Some (8 / 1000)"
proof -
  have ts: "timestamps scenario_1 = [0, 1 / 10, 2 / 10, 3 / 10, 4 / 10, 5 / 10, 6 / 10, 7 / 10, 8 / 10, 1]"
    by (simp add: scenario_1_def timestamps_def scenario_packet_reads)
  have bytes: "total_bytes scenario_1 = 1000"
    by (simp add: scenario_1_def total_bytes_def scenario_packet_reads)
  have bw: "bandwidth_of scenario_1 = 8 / 1000"
    by (simp add: bandwidth_of_def ts bytes Let_def)
  have ne: "scenario_1 \<noteq> []" by (simp add: scenario_1_def)
  have "map_option bandwidth (calculate_network_metrics 7 scenario_1) =
        Some (round2 (bandwidth_of scenario_1))"
    using ne by (simp add: calculate_network_metrics_def Let_def)
  also have "\<dots> = Some (1 / 100)" by (simp only: bw round2_bandwidth)
  finally have e: "map_option bandwidth (calculate_network_metrics 7 scenario_1) = Some (1 / 100)" .
  show ?thesis unfolding e by simp
qed

section \<open>Properties of the packet parser\<close>

lemma float_int_disjoint: "f \<in> set FLOAT_FIELDS \<Longrightarrow> f \<notin> set INT_FIELDS"
  by (auto simp: FLOAT_FIELDS_def INT_FIELDS_def)

lemma convert_field_error:
  "isl (convert_field to_float to_int f v pkt) = malformed to_float to_int f v"
  using float_int_disjoint [of f]
  by (auto simp: convert_field_def malformed_def split: option.splits)

lemma convert_field_keys:
  "convert_field to_float to_int f v pkt = Inr p \<Longrightarrow> has_key p k = (has_key pkt k \<or> k = f)"
  by (auto simp: convert_field_def has_key_def split: if_splits option.splits)

lemma parse_fields_error:
  "isl (parse_fields to_float to_int raw i hs pkt) =
   list_ex (\<lambda>(j, f). malformed to_float to_int f (value_at raw j)) (enumerate i hs)"
proof (induction hs arbitrary: i pkt)
  case Nil
  then show ?case by simp
next
  case (Cons f hs)
  show ?case
  proof (cases "convert_field to_float to_int f (value_at raw i) pkt")
    case (Inl e)
    with convert_field_error [of to_float to_int f "value_at raw i" pkt]
    show ?thesis by (simp add: value_at_def)
  next
    case (Inr pkt')
    with convert_field_error [of to_float to_int f "value_at raw i" pkt]
    have "\<not> malformed to_float to_int f (value_at raw i)" by simp
    with Inr Cons.IH [of "Suc i" pkt'] show ?thesis by (simp add: value_at_def)
  qed
qed

lemma parse_fields_keys:
  "parse_fields to_float to_int raw i hs pkt = Inr p \<Longrightarrow>
   has_key p k = (has_key pkt k \<or> k \<in> set hs)"
proof (induction hs arbitrary: i pkt)
  case Nil
  then show ?case by simp
next
  case (Cons f hs)
  from Cons.prems obtain pkt' where
    c: "convert_field to_float to_int f (if i < length raw then raw ! i else []) pkt = Inr pkt'"
    and r: "parse_fields to_float to_int raw (Suc i) hs pkt' = Inr p"
    by (auto simp: Let_def split: sum.splits)
  from Cons.IH [OF r] convert_field_keys [OF c, of k] show ?case by auto
qed

lemma parse_packet_error:
  "conversion_error to_float to_int raw hs \<Longrightarrow>
   parse_packet now to_float to_int raw hs = default_packet now"
  using parse_fields_error [of to_float to_int raw 0 hs empty_packet]
  by (cases "parse_fields to_float to_int raw 0 hs empty_packet")
     (simp_all add: conversion_error_def parse_packet_def)

lemma parse_packet_keys:
  "\<not> conversion_error to_float to_int raw hs \<Longrightarrow>
   has_key (parse_packet now to_float to_int raw hs) k = (k \<in> set hs)"
proof -
  assume ok: "\<not> conversion_error to_float to_int raw hs"
  show ?thesis
  proof (cases "parse_fields to_float to_int raw 0 hs empty_packet")
    case (Inl e)
    with parse_fields_error [of to_float to_int raw 0 hs empty_packet] ok
    show ?thesis by (simp add: conversion_error_def)
  next
    case (Inr p)
    from parse_fields_keys [OF Inr, of k] Inr show ?thesis
      by (simp add: parse_packet_def has_key_def empty_packet_def)
  qed
qed

lemma default_packet_populated: "fully_populated (default_packet now)"
  by (simp add: fully_populated_def TSHARK_FIELDS_def has_key_def default_packet_def)

lemma default_packet_reads:
  "get_float (default_packet now) ''frame.time_epoch'' 0 = now"
  "get_str (default_packet now) ''_ws.col.protocol'' [] = ''Unknown''"
  "get_int (default_packet now) ''frame.len'' 0 = 64"
  "get_int (default_packet now) ''ip.ttl'' 0 = 64"
  "get_int (default_packet now) ''tcp.srcport'' 1 = 0"
  "get_int (default_packet now) ''tcp.dstport'' 1 = 0"
  "get_int (default_packet now) ''tcp.window_size_value'' 1 = 0"
  "get_float (default_packet now) ''tcp.analysis.ack_rtt'' 1 = 0"
  "get_float (default_packet now) ''frame.time_delta'' 1 = 0"
  "get_float (default_packet now) ''dns.time'' 1 = 0"
  "get_bool (default_packet now) ''tcp.analysis.retransmission'' True = False"
  by (simp_all add: default_packet_def get_float_def get_str_def get_int_def get_bool_def)

text \<open>
  Claim C4, as the code has it. For every header and every sequence of raw values the
  parser returns a packet and raises nothing. On a conversion error the packet is the
  stand-in, which has all fourteen fields: the epoch is the clock reading, the protocol is
  \<^verbatim>\<open>Unknown\<close>, frame length and TTL are 64, the ports, the window size, the round-trip
  estimate, the delta and the DNS time are 0 and the retransmission flag is false. Without
  a conversion error the packet has exactly the fields that the header names, so it has
  all fourteen whenever the header names them all.
\<close>

theorem parse_packet_fails_open:
  "(conversion_error to_float to_int raw hs \<longrightarrow>
      parse_packet now to_float to_int raw hs = default_packet now) \<and>
   (\<not> conversion_error to_float to_int raw hs \<longrightarrow>
      (\<forall>k. has_key (parse_packet now to_float to_int raw hs) k = (k \<in> set hs))) \<and>
   (set TSHARK_FIELDS \<subseteq> set hs \<longrightarrow> fully_populated (parse_packet now to_float to_int raw hs)) \<and>
   fully_populated (default_packet now) \<and>
   get_float (default_packet now) ''frame.time_epoch'' 0 = now \<and>
   get_str (default_packet now) ''_ws.col.protocol'' [] = ''Unknown'' \<and>
   get_int (default_packet now) ''frame.len'' 0 = 64 \<and>
   get_int (default_packet now) ''ip.ttl'' 0 = 64 \<and>
   get_int (default_packet now) ''tcp.srcport'' 1 = 0 \<and>
   get_int (default_packet now) ''tcp.dstport'' 1 = 0 \<and>
   get_int (default_packet now) ''tcp.window_size_value'' 1 = 0 \<and>
   get_float (default_packet now) ''tcp.analysis.ack_rtt'' 1 = 0 \<and>
   get_float (default_packet now) ''frame.time_delta'' 1 = 0 \<and>
   get_float (default_packet now) ''dns.time'' 1 = 0 \<and>
   get_bool (default_packet now) ''tcp.analysis.retransmission'' True = False"
proof -
  have full: "fully_populated (parse_packet now to_float to_int raw hs)"
    if sub: "set TSHARK_FIELDS \<subseteq> set hs"
  proof (cases "conversion_error to_float to_int raw hs")
    case True
    then show ?thesis by (simp add: parse_packet_error default_packet_populated)
  next
    case False
    from parse_packet_keys [OF False] sub show ?thesis
      by (auto simp: fully_populated_def list_all_iff)
  qed
  show ?thesis
    using full parse_packet_error [of to_float to_int raw hs now]
      parse_packet_keys [of to_float to_int raw hs now]
    by (simp add: default_packet_populated default_packet_reads)
qed

lemma dec_values:
  "dec_float ''1700000000.5'' = Some 1700000000.5" "dec_float ''0.25'' = Some 0.25"
  "dec_float ''0.125'' = Some 0.125"
  "dec_int ''60'' = Some 60" "dec_int ''443'' = Some 443" "dec_int ''51000'' = Some 51000"
  "dec_int ''64'' = Some 64" "dec_int ''501'' = Some 501" "dec_int ''sixty'' = None"
  by (simp_all add: dec_float_def dec_int_def digit_val_def Let_def)

lemma bad_line_error: "conversion_error dec_float dec_int bad_line TSHARK_FIELDS"
  by (simp add: conversion_error_def TSHARK_FIELDS_def bad_line_def enumerate_simps malformed_def
        value_at_def FLOAT_FIELDS_def INT_FIELDS_def dec_values)

lemma good_line_ok: "\<not> conversion_error dec_float dec_int good_line TSHARK_FIELDS"
  by (simp add: conversion_error_def TSHARK_FIELDS_def good_line_def enumerate_simps malformed_def
        value_at_def FLOAT_FIELDS_def INT_FIELDS_def dec_values)

theorem parse_packet_fails_open_witness:
  "conversion_error dec_float dec_int bad_line TSHARK_FIELDS \<and>
   parse_packet 7 dec_float dec_int bad_line TSHARK_FIELDS = default_packet 7 \<and>
   \<not> conversion_error dec_float dec_int good_line TSHARK_FIELDS \<and>
   has_key (parse_packet 7 dec_float dec_int good_line TSHARK_FIELDS) ''dns.time'' \<and>
   fully_populated (parse_packet 7 dec_float dec_int good_line TSHARK_FIELDS)"
proof -
  have k: "''dns.time'' \<in> set TSHARK_FIELDS" by (simp add: TSHARK_FIELDS_def)
  from parse_packet_fails_open [of dec_float dec_int bad_line TSHARK_FIELDS 7]
    parse_packet_fails_open [of dec_float dec_int good_line TSHARK_FIELDS 7]
    bad_line_error good_line_ok k
  show ?thesis by simp
qed

text \<open>
  Claim C4, as the specification words it, fails: under a header that names one field the
  parser returns a packet with that field alone.
\<close>

theorem parse_packet_partial_counterexample:
  "\<not> fully_populated (parse_packet 7 dec_float dec_int [''10.0.0.1''] [''ip.src''])"
  by (simp add: parse_packet_def convert_field_def FLOAT_FIELDS_def INT_FIELDS_def
        empty_packet_def fully_populated_def TSHARK_FIELDS_def has_key_def)

section \<open>Properties of the aggregation scheduler\<close>

lemma process_line_rows:
  assumes "csv_rows (process_line to_float to_int raw t_parse current_time t_metrics st) \<noteq> csv_rows st"
  shows "py_strip raw \<noteq> [] \<and> header st \<noteq> None \<and>
         METRICS_INTERVAL \<le> current_time - last_metrics_time st \<and>
         packet_buffer (process_line to_float to_int raw t_parse current_time t_metrics st) \<noteq> [] \<and>
         last_metrics_time (process_line to_float to_int raw t_parse current_time t_metrics st) =
           current_time \<and>
         (\<exists>m. calculate_network_metrics t_metrics
                (packet_buffer (process_line to_float to_int raw t_parse current_time t_metrics st)) =
                Some m \<and>
              csv_rows (process_line to_float to_int raw t_parse current_time t_metrics st) =
                csv_rows st @ [m])"
  using assms
  by (auto simp: process_line_def Let_def split: option.splits if_splits)

lemma process_line_blank:
  "py_strip raw = [] \<Longrightarrow> process_line to_float to_int raw t_parse current_time t_metrics st = st"
  by (simp add: process_line_def Let_def)

lemma capture_loop_snoc:
  "capture_loop to_float to_int (rs @ [r]) st = capture_loop to_float to_int rs st \<or>
   (\<exists>raw t_parse current_time t_metrics.
      r = Line raw t_parse current_time t_metrics \<and>
      capture_loop to_float to_int (rs @ [r]) st =
        process_line to_float to_int raw t_parse current_time t_metrics
          (capture_loop to_float to_int rs st))"
proof (induction rs arbitrary: st)
  case Nil
  then show ?case by (cases r) simp_all
next
  case (Cons a rs)
  then show ?case by (cases a) simp_all
qed

lemma capture_loop_quiet:
  "list_all quiet rs \<Longrightarrow> capture_loop to_float to_int rs st = st"
proof (induction rs)
  case Nil
  then show ?case by simp
next
  case (Cons a rs)
  then show ?case by (cases a) (simp_all add: quiet_def process_line_blank)
qed

text \<open>
  Claim C8. In the ingestion loop a turn adds a metrics record only when it reads a packet
  (a non-blank line after the header line), the clock reading of that turn is at least
  the interval of 5 seconds past the last computation, and the buffer is not empty. While
  no packet arrives (nothing is read, or blank lines are), no record is computed, whatever
  the clock reads.
\<close>

theorem metrics_only_on_packet_arrival:
  "(csv_rows (capture_loop to_float to_int (rs @ [r]) st) \<noteq>
      csv_rows (capture_loop to_float to_int rs st) \<longrightarrow>
    (\<exists>raw t_parse current_time t_metrics.
       r = Line raw t_parse current_time t_metrics \<and>
       is_packet_arrival (capture_loop to_float to_int rs st) r \<and>
       METRICS_INTERVAL \<le> current_time - last_metrics_time (capture_loop to_float to_int rs st) \<and>
       packet_buffer (capture_loop to_float to_int (rs @ [r]) st) \<noteq> [] \<and>
       last_metrics_time (capture_loop to_float to_int (rs @ [r]) st) = current_time)) \<and>
   (list_all quiet qs \<longrightarrow>
      csv_rows (capture_loop to_float to_int qs st) = csv_rows st \<and>
      last_metrics_time (capture_loop to_float to_int qs st) = last_metrics_time st) \<and>
   METRICS_INTERVAL = 5"
proof -
  let ?s = "capture_loop to_float to_int rs st"
  let ?s' = "capture_loop to_float to_int (rs @ [r]) st"
  have step: "\<exists>raw t_parse current_time t_metrics.
       r = Line raw t_parse current_time t_metrics \<and> is_packet_arrival ?s r \<and>
       METRICS_INTERVAL \<le> current_time - last_metrics_time ?s \<and>
       packet_buffer ?s' \<noteq> [] \<and> last_metrics_time ?s' = current_time"
    if diff: "csv_rows ?s' \<noteq> csv_rows ?s"
  proof -
    from diff have "?s' \<noteq> ?s" by auto
    with capture_loop_snoc [of to_float to_int rs r st]
    obtain raw t_parse current_time t_metrics where
      r: "r = Line raw t_parse current_time t_metrics" and
      s': "?s' = process_line to_float to_int raw t_parse current_time t_metrics ?s"
      by blast
    from diff have "csv_rows (process_line to_float to_int raw t_parse current_time t_metrics ?s)
        \<noteq> csv_rows ?s"
      unfolding s' .
    from process_line_rows [OF this] r show ?thesis
      unfolding s' by (simp add: is_packet_arrival_def)
  qed
  have idle: "list_all quiet qs \<longrightarrow>
      csv_rows (capture_loop to_float to_int qs st) = csv_rows st \<and>
      last_metrics_time (capture_loop to_float to_int qs st) = last_metrics_time st"
    by (simp add: capture_loop_quiet)
  from step idle show ?thesis by (simp add: METRICS_INTERVAL_def)
qed

theorem metrics_only_on_packet_arrival_witness:
  "csv_rows (capture_loop dec_float dec_int
      ([Line ''frame.len,tcp.srcport'' 0 1 0] @ [Line ''60,443'' 0 6 6]) (initial_state 0)) \<noteq>
   csv_rows (capture_loop dec_float dec_int [Line ''frame.len,tcp.srcport'' 0 1 0] (initial_state 0)) \<and>
   is_packet_arrival
     (capture_loop dec_float dec_int [Line ''frame.len,tcp.srcport'' 0 1 0] (initial_state 0))
     (Line ''60,443'' 0 6 6) \<and>
   list_all quiet [Eof False, Line ''  '' 0 100 100] \<and>
   csv_rows (capture_loop dec_float dec_int [Eof False, Line ''  '' 0 100 100] (initial_state 0)) = []"
proof -
  have strip: "py_strip ''frame.len,tcp.srcport'' = ''frame.len,tcp.srcport''"
    "py_strip ''60,443'' = ''60,443''" "py_strip ''  '' = []"
    by (simp_all add: py_strip_def is_space_def)
  have hd: "capture_loop dec_float dec_int [Line ''frame.len,tcp.srcport'' 0 1 0] (initial_state 0)
      = (initial_state 0)\<lparr>header := Some [''frame.len'', ''tcp.srcport'']\<rparr>"
    by (simp add: process_line_def strip initial_state_def)
  have q: "list_all quiet [Eof False, Line ''  '' 0 100 100]"
    by (simp add: quiet_def strip)
  have rows: "csv_rows (capture_loop dec_float dec_int
      ([Line ''frame.len,tcp.srcport'' 0 1 0] @ [Line ''60,443'' 0 6 6]) (initial_state 0)) \<noteq>
      csv_rows (capture_loop dec_float dec_int [Line ''frame.len,tcp.srcport'' 0 1 0] (initial_state 0))"
    by (simp add: process_line_def strip initial_state_def Let_def deque_append_def
          BUFFER_MAXLEN_def METRICS_INTERVAL_def calculate_network_metrics_def)
  from metrics_only_on_packet_arrival [of dec_float dec_int
      "[Line ''frame.len,tcp.srcport'' 0 1 0]" "Line ''60,443'' 0 6 6" "initial_state 0"
      "[Eof False, Line ''  '' 0 100 100]"] rows q
  show ?thesis by (simp add: initial_state_def)
qed

end
